theory Spec2Isabelle
  imports Main
begin

section \<open>Service account registration checks (fence/resources/google/access_utils.py)\<close>

subsection \<open>Python values, JSON bodies and exceptions\<close>

text \<open>
  A value bound into a query is a Python integer or string. A JSON body, as
  \<^verbatim>\<open>response.json()\<close> returns it, is a dictionary from keys to JSON values, kept
  as an association list.
\<close>

datatype pyval = PyInt int | PyStr string

datatype json_value =
    JNull
  | JBool bool
  | JNum int
  | JStr string
  | JArr "json_value list"
  | JObj "(string \<times> json_value) list"

type_synonym pydict = "(string \<times> json_value) list"

text \<open>
  Exceptions are values. The type holds the instances of Python's \<^verbatim>\<open>Exception\<close>
  class, the ones a clause \<^verbatim>\<open>except Exception\<close> matches. The message of a
  \<^verbatim>\<open>GoogleAPIError\<close> is built by \<^verbatim>\<open>str.format\<close>; it is kept as the template
  with its arguments.
\<close>

datatype fmt_arg = ArgStr string | ArgJson pydict

datatype pyexn =
    NotImplementedError string
  | GoogleAPIError string "fmt_arg list"
  | AttributeError string
  | RaisedException string string


definition dict_contains :: "pydict \<Rightarrow> string \<Rightarrow> bool" where
  "dict_contains d k = (map_of d k \<noteq> None)"

text \<open>\<^verbatim>\<open>s.split(sep)\<close> for a one-character separator: the pieces between separators.\<close>

fun str_split :: "char \<Rightarrow> string \<Rightarrow> string list" where
  "str_split sep [] = [[]]"
| "str_split sep (ch # cs) =
     (if ch = sep then [] # str_split sep cs
      else (case str_split sep cs of
              [] \<Rightarrow> [[ch]]
            | w # ws \<Rightarrow> (ch # w) # ws))"

subsection \<open>The unfinished collaborators\<close>

definition not_yet_available :: string where
  "not_yet_available = ''Functionality not yet available...''"

definition is_service_account_from_google_project :: "string \<Rightarrow> string \<Rightarrow> pyexn + bool" where
  "is_service_account_from_google_project service_account google_project =
     Inl (NotImplementedError not_yet_available)"

definition is_user_member_of_all_google_projects :: "int \<Rightarrow> string list \<Rightarrow> pyexn + bool" where
  "is_user_member_of_all_google_projects uid google_project_ids =
     Inl (NotImplementedError not_yet_available)"

definition get_service_account_email :: "string \<Rightarrow> pyexn + string" where
  "get_service_account_email account_id = Inl (NotImplementedError not_yet_available)"

definition get_google_project_from_service_account_email :: "string \<Rightarrow> pyexn + string" where
  "get_google_project_from_service_account_email account_id =
     Inl (NotImplementedError not_yet_available)"

text \<open>
  \<^verbatim>\<open>can_user_manage_service_account\<close> calls its three collaborators in sequence; an
  exception raised by one of them leaves the function at once.
\<close>

definition can_user_manage_service_account :: "int \<Rightarrow> string \<Rightarrow> pyexn + bool" where
  "can_user_manage_service_account uid account_id =
     (case get_service_account_email account_id of
        Inl e \<Rightarrow> Inl e
      | Inr service_account_email \<Rightarrow>
          (case get_google_project_from_service_account_email service_account_email of
             Inl e \<Rightarrow> Inl e
           | Inr service_account_project \<Rightarrow>
               is_user_member_of_all_google_projects uid [service_account_project]))"

subsection \<open>The AccessPrivilege table and the query of the bulk access check\<close>

text \<open>
  A row of AccessPrivilege refers to its user and its project by their integer keys; the
  project column may be NULL. A Project row carries the key and the external
  authorization identifier.
\<close>

record AccessPrivilege =
  user_id :: int
  project_id :: "int option"

record Project =
  id' :: int
  auth_id :: string

record database =
  access_privilege_rows :: "AccessPrivilege list"
  project_rows :: "Project list"

text \<open>
  A filter criterion is built by \<^verbatim>\<open>==\<close> on a mapped column and a Python value: a
  binary expression whose operands are the column and the bound value.
\<close>

datatype column = AccessPrivilege_user_id | AccessPrivilege_project_id

datatype operand = Column column | BindParameter pyval

datatype clause = BinaryExpression operand operand

definition column_eq :: "column \<Rightarrow> pyval \<Rightarrow> clause" where
  "column_eq col v = BinaryExpression (Column col) (BindParameter v)"

text \<open>
  The truth value Python asks of an equality expression compares the hashes of its two
  operands, which are equal when the operands are the same object.
\<close>

fun clause_bool :: "clause \<Rightarrow> bool" where
  "clause_bool (BinaryExpression l r) = (l = r)"

text \<open>Python's \<^verbatim>\<open>x and y\<close>: \<^verbatim>\<open>x\<close> when \<^verbatim>\<open>x\<close> is false, else \<^verbatim>\<open>y\<close>.\<close>

definition py_and :: "clause \<Rightarrow> clause \<Rightarrow> clause" where
  "py_and x y = (if clause_bool x then y else x)"

text \<open>
  What the store decides for a row: SQL equality, never true on NULL. A user id is an
  integer, as the column is; an integer and a string are taken as different values.
\<close>

fun operand_value :: "AccessPrivilege \<Rightarrow> operand \<Rightarrow> pyval option" where
  "operand_value row (Column AccessPrivilege_user_id) = Some (PyInt (user_id row))"
| "operand_value row (Column AccessPrivilege_project_id) = map_option PyInt (project_id row)"
| "operand_value row (BindParameter v) = Some v"

fun clause_holds :: "AccessPrivilege \<Rightarrow> clause \<Rightarrow> bool" where
  "clause_holds row (BinaryExpression l r) =
     (case operand_value row l of
        None \<Rightarrow> False
      | Some a \<Rightarrow> (case operand_value row r of None \<Rightarrow> False | Some b \<Rightarrow> a = b))"

text \<open>\<^verbatim>\<open>current_session.query(AccessPrivilege).filter(c).first()\<close>\<close>

definition query_filter_first :: "database \<Rightarrow> clause \<Rightarrow> AccessPrivilege option" where
  "query_filter_first db c = find (\<lambda>row. clause_holds row c) (access_privilege_rows db)"

text \<open>
  The loop over \<^verbatim>\<open>user_ids\<close>. The result is paired with the criteria of the queries
  sent to the store, in order.
\<close>

fun do_all_users_have_access_to_project ::
  "database \<Rightarrow> int list \<Rightarrow> string \<Rightarrow> bool \<times> clause list" where
  "do_all_users_have_access_to_project db [] project_auth_id = (True, [])"
| "do_all_users_have_access_to_project db (uid # user_ids) project_auth_id =
     (let criterion = py_and (column_eq AccessPrivilege_user_id (PyInt uid))
                             (column_eq AccessPrivilege_project_id (PyStr project_auth_id));
          access_privillege = query_filter_first db criterion
      in if access_privillege = None then (False, [criterion])
         else (case do_all_users_have_access_to_project db user_ids project_auth_id of
                 (answer, queries) \<Rightarrow> (answer, criterion # queries)))"

text \<open>
  The specification's wording of the bulk check, for comparison with the code: every
  listed user has a direct AccessPrivilege row for the project with the given
  authorization identifier.
\<close>

definition spec_has_direct_row :: "database \<Rightarrow> int \<Rightarrow> string \<Rightarrow> bool" where
  "spec_has_direct_row db uid project_auth_id =
     list_ex (\<lambda>row. user_id row = uid \<and>
                list_ex (\<lambda>p. Some (id' p) = project_id row \<and> auth_id p = project_auth_id)
                        (project_rows db))
             (access_privilege_rows db)"

definition spec_userHasAccessToAllOf :: "database \<Rightarrow> int list \<Rightarrow> string \<Rightarrow> bool" where
  "spec_userHasAccessToAllOf db user_ids project_auth_id =
     list_all (\<lambda>uid. spec_has_direct_row db uid project_auth_id) user_ids"

text \<open>A store with two projects, where user 1 holds a row for the first project only.\<close>

definition two_project_store :: database where
  "two_project_store =
     \<lparr>access_privilege_rows = [\<lparr>user_id = 1, project_id = Some 10\<rparr>],
      project_rows = [\<lparr>id' = 10, auth_id = ''phs_project_1''\<rparr>,
                      \<lparr>id' = 20, auth_id = ''phs_project_2''\<rparr>]\<rparr>"

subsection \<open>The cloud provider behind GoogleCloudManager\<close>

text \<open>
  The provider is read through the cirrus library, which is not part of this repository:
  its operations are parameters. Each of them either returns a value or raises. The
  provider is only read, so an operation is a function of its arguments.
\<close>

datatype member_type = USER | SERVICE_ACCOUNT | GROUP | DOMAIN | OtherMemberType string

record GooglePolicyMember =
  member_type :: member_type
  email_id :: string

datatype service_account_type =
    COMPUTE_ENGINE_DEFAULT_SERVICE_ACCOUNT
  | USER_MANAGED_SERVICE_ACCOUNT
  | OtherServiceAccountType string

text \<open>
  A reply of the provider: its status, and what the call \<^verbatim>\<open>response.json()\<close> gives,
  the decoded body or the decoder's error when the body is not JSON.
\<close>

record response =
  status_code :: int
  json :: "pyexn + pydict"

record GooglePolicy =
  roles :: "string set"

record google_cloud =
  manager_enter :: "string option \<Rightarrow> pyexn + unit"
  has_parent_organization :: "string \<Rightarrow> pyexn + bool"
  get_project_membership :: "string \<Rightarrow> pyexn + GooglePolicyMember list"
  get_service_account_type :: "string \<Rightarrow> string \<Rightarrow> pyexn + service_account_type"
  get_service_account_policy :: "string \<Rightarrow> pyexn + response"
  get_service_account_keys_info :: "string \<Rightarrow> pyexn + pydict list"
  get_all_service_accounts :: "string \<Rightarrow> pyexn + pydict list"
  get_service_account :: "string \<Rightarrow> string \<Rightarrow> pyexn + response"
  GooglePolicy_from_json :: "pydict \<Rightarrow> pyexn + GooglePolicy"

text \<open>
  \<^verbatim>\<open>with GoogleCloudManager(project_id) as g_mgr: body\<close>: the manager is built and
  entered, which may raise; then the body runs. Leaving the block lets an exception of
  the body pass.
\<close>

definition with_GoogleCloudManager ::
  "google_cloud \<Rightarrow> string option \<Rightarrow> (pyexn + 'a) \<Rightarrow> pyexn + 'a" where
  "with_GoogleCloudManager c project body =
     (case manager_enter c project of Inl e \<Rightarrow> Inl e | Inr u \<Rightarrow> body)"

text \<open>
  \<^verbatim>\<open>try: body except Exception as exc: handler\<close>. The handlers of this module write a
  debug line to the application log and return; the log is not part of the model.
\<close>

definition try_except_Exception :: "(pyexn + 'a) \<Rightarrow> (pyexn \<Rightarrow> pyexn + 'a) \<Rightarrow> pyexn + 'a" where
  "try_except_Exception body handler = (case body of Inl exc \<Rightarrow> handler exc | Inr v \<Rightarrow> Inr v)"

subsection \<open>The checks of the policy engine\<close>

definition ALLOWED_SERVICE_ACCOUNT_TYPES :: "service_account_type list" where
  "ALLOWED_SERVICE_ACCOUNT_TYPES =
     [COMPUTE_ENGINE_DEFAULT_SERVICE_ACCOUNT, USER_MANAGED_SERVICE_ACCOUNT]"

definition google_project_has_parent_org :: "google_cloud \<Rightarrow> string \<Rightarrow> pyexn + bool" where
  "google_project_has_parent_org c project =
     try_except_Exception
       (with_GoogleCloudManager c (Some project) (has_parent_organization c project))
       (\<lambda>exc. Inr False)"

text \<open>The loop over the members, left with False at the first member of another type.\<close>

fun only_users_and_service_accounts :: "GooglePolicyMember list \<Rightarrow> bool" where
  "only_users_and_service_accounts [] = True"
| "only_users_and_service_accounts (member # members) =
     (if \<not> (member_type member = SERVICE_ACCOUNT \<or> member_type member = USER) then False
      else only_users_and_service_accounts members)"

definition google_project_has_valid_membership :: "google_cloud \<Rightarrow> string \<Rightarrow> pyexn + bool" where
  "google_project_has_valid_membership c project =
     try_except_Exception
       (with_GoogleCloudManager c (Some project)
          (case get_project_membership c project of
             Inl e \<Rightarrow> Inl e
           | Inr members \<Rightarrow> Inr (only_users_and_service_accounts members)))
       (\<lambda>exc. Inr False)"

definition is_valid_service_account_type ::
  "google_cloud \<Rightarrow> string \<Rightarrow> string \<Rightarrow> pyexn + bool" where
  "is_valid_service_account_type c project account_id =
     try_except_Exception
       (with_GoogleCloudManager c (Some project)
          (case get_service_account_type c project account_id of
             Inl e \<Rightarrow> Inl e
           | Inr t \<Rightarrow> Inr (t \<in> set ALLOWED_SERVICE_ACCOUNT_TYPES)))
       (\<lambda>exc. Inr False)"

definition policy_error_template :: string where
  "policy_error_template =
     ''Unable to get IAM policy for service account {}'' @ [CHR 0x0A] @ ''{}.''"

text \<open>
  The second half of \<^verbatim>\<open>service_account_has_external_access\<close>: the key lookup, reached
  when the policy gave no role.
\<close>

definition external_access_by_keys :: "google_cloud \<Rightarrow> string \<Rightarrow> pyexn + bool" where
  "external_access_by_keys c service_account =
     (case get_service_account_keys_info c service_account of
        Inl e \<Rightarrow> Inl e
      | Inr keys \<Rightarrow> if keys \<noteq> [] then Inr True else Inr False)"

definition service_account_has_external_access :: "google_cloud \<Rightarrow> string \<Rightarrow> pyexn + bool" where
  "service_account_has_external_access c service_account =
     with_GoogleCloudManager c None
       (case get_service_account_policy c service_account of
          Inl e \<Rightarrow> Inl e
        | Inr response \<Rightarrow>
            if status_code response \<noteq> 200
            then (case json response of
                    Inl e \<Rightarrow> Inl e
                  | Inr body \<Rightarrow>
                      Inl (GoogleAPIError policy_error_template
                             [ArgStr service_account, ArgJson body]))
            else
              (case json response of
                 Inl e \<Rightarrow> Inl e
               | Inr json_obj \<Rightarrow>
                   if dict_contains json_obj ''bindings''
                   then (case GooglePolicy_from_json c json_obj of
                           Inl e \<Rightarrow> Inl e
                         | Inr policy \<Rightarrow>
                             if roles policy \<noteq> {} then Inr True
                             else external_access_by_keys c service_account)
                   else external_access_by_keys c service_account))"






text \<open>
  The specification's reading of a policy reply: the roles of the policy parsed from the
  decoded body, and no roles when the body has no bindings section.
\<close>

definition spec_policy_roles :: "google_cloud \<Rightarrow> response \<Rightarrow> pyexn + string set" where
  "spec_policy_roles c response =
     (case json response of
        Inl e \<Rightarrow> Inl e
      | Inr body \<Rightarrow>
          if dict_contains body ''bindings''
          then (case GooglePolicy_from_json c body of
                  Inl e \<Rightarrow> Inl e
                | Inr policy \<Rightarrow> Inr (roles policy))
          else Inr {})"

subsection \<open>Two providers to evaluate the checks on\<close>

text \<open>A provider that cannot be reached: every operation raises.\<close>

definition connection_error :: pyexn where
  "connection_error = RaisedException ''ConnectionError'' ''provider unreachable''"

definition unreachable_cloud :: google_cloud where
  "unreachable_cloud =
     \<lparr>manager_enter = (\<lambda>project. Inr ()),
      has_parent_organization = (\<lambda>project. Inl connection_error),
      get_project_membership = (\<lambda>project. Inl connection_error),
      get_service_account_type = (\<lambda>project account_id. Inl connection_error),
      get_service_account_policy = (\<lambda>service_account. Inl connection_error),
      get_service_account_keys_info = (\<lambda>service_account. Inl connection_error),
      get_all_service_accounts = (\<lambda>project. Inl connection_error),
      get_service_account = (\<lambda>project account_id. Inl connection_error),
      GooglePolicy_from_json = (\<lambda>body. Inl connection_error)\<rparr>"

text \<open>
  A provider with a project \<^verbatim>\<open>p1\<close> of a user, a service account member and two
  service accounts \<^verbatim>\<open>a1\<close> and \<^verbatim>\<open>a2\<close>; a project \<^verbatim>\<open>p2\<close> of a user and a
  group, listing \<^verbatim>\<open>a1\<close>, an unknown account \<^verbatim>\<open>a9\<close> and an account \<^verbatim>\<open>a7\<close>
  whose fetch raises; a project \<^verbatim>\<open>p3\<close> listing an account \<^verbatim>\<open>a8\<close>, for which a
  gateway answers with status 502 and a page that is not JSON. Any other project is empty.
  Account \<^verbatim>\<open>a1\<close> has an owner role and its keys cannot be listed, \<^verbatim>\<open>a2\<close> has no
  bindings and one key, \<^verbatim>\<open>a3\<close> has empty bindings and no key. Any other account is
  unknown (status 404, with a JSON body).
\<close>

definition json_decode_error :: pyexn where
  "json_decode_error = RaisedException ''ValueError'' ''No JSON object could be decoded''"

definition not_found :: response where
  "not_found = \<lparr>status_code = 404, json = Inr [(''error'', JStr ''not found'')]\<rparr>"

definition bad_gateway :: response where
  "bad_gateway = \<lparr>status_code = 502, json = Inl json_decode_error\<rparr>"

definition owner_bindings :: pydict where
  "owner_bindings = [(''bindings'', JArr [JObj [(''role'', JStr ''owner'')]])]"

definition sample_cloud :: google_cloud where
  "sample_cloud =
     \<lparr>manager_enter = (\<lambda>project. Inr ()),
      has_parent_organization = (\<lambda>project. Inr (project = ''p1'')),
      get_project_membership =
        (\<lambda>project. if project = ''p1''
           then Inr [\<lparr>member_type = USER, email_id = ''u@x''\<rparr>,
                     \<lparr>member_type = SERVICE_ACCOUNT, email_id = ''a1''\<rparr>]
           else if project = ''p2''
           then Inr [\<lparr>member_type = USER, email_id = ''u@x''\<rparr>,
                     \<lparr>member_type = GROUP, email_id = ''g@x''\<rparr>]
           else Inr []),
      get_service_account_type =
        (\<lambda>project account_id. if account_id = ''a1'' then Inr USER_MANAGED_SERVICE_ACCOUNT
           else Inr (OtherServiceAccountType ''google-api'')),
      get_service_account_policy =
        (\<lambda>service_account.
           if service_account = ''a1''
           then Inr \<lparr>status_code = 200, json = Inr owner_bindings\<rparr>
           else if service_account = ''a2''
           then Inr \<lparr>status_code = 200, json = Inr [(''etag'', JStr ''e'')]\<rparr>
           else if service_account = ''a3''
           then Inr \<lparr>status_code = 200, json = Inr [(''bindings'', JArr [])]\<rparr>
           else if service_account = ''a8'' then Inr bad_gateway
           else Inr not_found),
      get_service_account_keys_info =
        (\<lambda>service_account.
           if service_account = ''a1'' then Inl connection_error
           else if service_account = ''a2'' then Inr [[(''name'', JStr ''k1'')]]
           else Inr []),
      get_all_service_accounts =
        (\<lambda>project. if project = ''p1''
           then Inr [[(''name'', JStr ''p1/a1'')], [(''name'', JStr ''p1/a2'')]]
           else if project = ''p2''
           then Inr [[(''name'', JStr ''p2/a1'')], [(''name'', JStr ''p2/a9'')],
                     [(''name'', JStr ''p2/a7'')]]
           else if project = ''p3''
           then Inr [[(''name'', JStr ''p3/a8'')]]
           else Inr []),
      get_service_account =
        (\<lambda>project account_id.
           if account_id = ''a1'' \<or> account_id = ''a2''
           then Inr \<lparr>status_code = 200, json = Inr [(''uniqueId'', JStr account_id)]\<rparr>
           else if account_id = ''a7'' then Inl connection_error
           else if account_id = ''a8'' then Inr bad_gateway
           else Inr not_found),
      GooglePolicy_from_json =
        (\<lambda>body. if body = owner_bindings then Inr \<lparr>roles = {''owner''}\<rparr>
           else Inr \<lparr>roles = {}\<rparr>)\<rparr>"

section \<open>Properties\<close>

subsection \<open>Unimplemented collaborators\<close>

text \<open>
  C7: for every user id and account id, \<^verbatim>\<open>can_user_manage_service_account\<close> raises
  the not-implemented error and so never answers with a boolean; its collaborators
  \<^verbatim>\<open>get_service_account_email\<close> and \<^verbatim>\<open>is_user_member_of_all_google_projects\<close>
  raise that same error on every input.
\<close>

theorem can_user_manage_service_account_not_implemented:
  "can_user_manage_service_account uid account_id = Inl (NotImplementedError not_yet_available)
   \<and> (\<forall>answer. can_user_manage_service_account uid account_id \<noteq> Inr answer)
   \<and> get_service_account_email account_id = Inl (NotImplementedError not_yet_available)
   \<and> is_user_member_of_all_google_projects uid google_project_ids
       = Inl (NotImplementedError not_yet_available)"
  by (simp add: can_user_manage_service_account_def get_service_account_email_def
      is_user_member_of_all_google_projects_def)

subsection \<open>The bulk access check\<close>

text \<open>
  The criterion that reaches the store is the comparison of the user column alone: the
  truth value of that comparison is false, so \<^verbatim>\<open>and\<close> yields its first operand.
\<close>

lemma criterion_is_user_clause:
  "py_and (column_eq AccessPrivilege_user_id (PyInt uid))
          (column_eq AccessPrivilege_project_id (PyStr project_auth_id))
     = column_eq AccessPrivilege_user_id (PyInt uid)"
  by (simp add: py_and_def column_eq_def)

lemma query_by_user_clause:
  "(query_filter_first db (column_eq AccessPrivilege_user_id (PyInt uid)) = None)
     = (uid \<notin> user_id ` set (access_privilege_rows db))"
  by (auto simp: query_filter_first_def column_eq_def find_None_iff)

text \<open>
  Hence the answer of the code: every listed user holds some AccessPrivilege row, for
  whatever project.
\<close>

lemma do_all_users_have_access_to_project_any_row:
  "fst (do_all_users_have_access_to_project db user_ids project_auth_id)
     = (set user_ids \<subseteq> user_id ` set (access_privilege_rows db))"
proof (induction user_ids)
  case Nil
  show ?case by simp
next
  case (Cons uid user_ids)
  show ?case
  proof (cases "uid \<in> user_id ` set (access_privilege_rows db)")
    case True
    with Cons.IH show ?thesis
      by (simp add: criterion_is_user_clause query_by_user_clause case_prod_beta)
  next
    case False
    then show ?thesis
      by (simp add: criterion_is_user_clause query_by_user_clause)
  qed
qed

text \<open>
  C9: for the empty list of user ids and any project authorization id, over any store,
  \<^verbatim>\<open>do_all_users_have_access_to_project\<close> returns true and sends no query.
\<close>

theorem do_all_users_have_access_to_project_empty:
  "do_all_users_have_access_to_project db [] project_auth_id = (True, [])"
  by simp

text \<open>
  C1, evaluated on the code: user 1 holds a row for project 10 (phs_project_1) only. Asked
  about phs_project_2, the code queries by the user column alone, finds the row and
  answers true, while user 1 has no direct row for that project.
\<close>

theorem do_all_users_have_access_to_project_ignores_project:
  "do_all_users_have_access_to_project two_project_store [1] ''phs_project_2''
     = (True, [column_eq AccessPrivilege_user_id (PyInt 1)])
   \<and> \<not> spec_userHasAccessToAllOf two_project_store [1] ''phs_project_2''"
  by (simp add: two_project_store_def query_filter_first_def py_and_def column_eq_def
      spec_userHasAccessToAllOf_def spec_has_direct_row_def)

subsection \<open>Checks 1 to 3 fail closed\<close>

text \<open>
  C2: whenever entering the manager or the provider call raises, each of
  \<^verbatim>\<open>google_project_has_parent_org\<close>, \<^verbatim>\<open>google_project_has_valid_membership\<close> and
  \<^verbatim>\<open>is_valid_service_account_type\<close> returns false; and on every input each of them
  returns, no exception leaves them.
\<close>

theorem provider_checks_fail_closed:
  "(isl (manager_enter c (Some project)) \<or> isl (has_parent_organization c project)
      \<longrightarrow> google_project_has_parent_org c project = Inr False)
   \<and> (isl (manager_enter c (Some project)) \<or> isl (get_project_membership c project)
      \<longrightarrow> google_project_has_valid_membership c project = Inr False)
   \<and> (isl (manager_enter c (Some project)) \<or> isl (get_service_account_type c project account_id)
      \<longrightarrow> is_valid_service_account_type c project account_id = Inr False)
   \<and> \<not> isl (google_project_has_parent_org c project)
   \<and> \<not> isl (google_project_has_valid_membership c project)
   \<and> \<not> isl (is_valid_service_account_type c project account_id)"
proof (intro conjI impI)
  assume "isl (manager_enter c (Some project)) \<or> isl (has_parent_organization c project)"
  then show "google_project_has_parent_org c project = Inr False"
    by (auto simp: google_project_has_parent_org_def try_except_Exception_def
        with_GoogleCloudManager_def split: sum.splits)
next
  assume "isl (manager_enter c (Some project)) \<or> isl (get_project_membership c project)"
  then show "google_project_has_valid_membership c project = Inr False"
    by (auto simp: google_project_has_valid_membership_def try_except_Exception_def
        with_GoogleCloudManager_def split: sum.splits)
next
  assume "isl (manager_enter c (Some project))
           \<or> isl (get_service_account_type c project account_id)"
  then show "is_valid_service_account_type c project account_id = Inr False"
    by (auto simp: is_valid_service_account_type_def try_except_Exception_def
        with_GoogleCloudManager_def split: sum.splits)
next
  show "\<not> isl (google_project_has_parent_org c project)"
    by (simp add: google_project_has_parent_org_def try_except_Exception_def split: sum.splits)
next
  show "\<not> isl (google_project_has_valid_membership c project)"
    by (simp add: google_project_has_valid_membership_def try_except_Exception_def
        split: sum.splits)
next
  show "\<not> isl (is_valid_service_account_type c project account_id)"
    by (simp add: is_valid_service_account_type_def try_except_Exception_def split: sum.splits)
qed

theorem provider_checks_fail_closed_witness:
  "isl (has_parent_organization unreachable_cloud ''p1'')
   \<and> isl (get_project_membership unreachable_cloud ''p1'')
   \<and> isl (get_service_account_type unreachable_cloud ''p1'' ''a1'')
   \<and> google_project_has_parent_org unreachable_cloud ''p1'' = Inr False
   \<and> google_project_has_valid_membership unreachable_cloud ''p1'' = Inr False
   \<and> is_valid_service_account_type unreachable_cloud ''p1'' ''a1'' = Inr False"
  using provider_checks_fail_closed [of unreachable_cloud "''p1''" "''a1''"]
  by (simp add: unreachable_cloud_def)

subsection \<open>Membership and account type\<close>

lemma only_users_and_service_accounts_iff:
  "only_users_and_service_accounts members
     = (\<forall>member \<in> set members. member_type member = USER \<or> member_type member = SERVICE_ACCOUNT)"
  by (induction members) auto

text \<open>
  C5: when the manager is entered and the members of the project are enumerated without
  an error, \<^verbatim>\<open>google_project_has_valid_membership\<close> returns true if and only if the
  type of every member is USER or SERVICE_ACCOUNT.
\<close>

theorem google_project_has_valid_membership_iff:
  assumes "manager_enter c (Some project) = Inr ()"
    and "get_project_membership c project = Inr members"
  shows "google_project_has_valid_membership c project
           = Inr (\<forall>member \<in> set members.
                    member_type member = USER \<or> member_type member = SERVICE_ACCOUNT)"
  using assms
  by (simp add: google_project_has_valid_membership_def try_except_Exception_def
      with_GoogleCloudManager_def only_users_and_service_accounts_iff)

theorem google_project_has_valid_membership_iff_witness:
  "manager_enter sample_cloud (Some ''p1'') = Inr ()
   \<and> get_project_membership sample_cloud ''p1''
       = Inr [\<lparr>member_type = USER, email_id = ''u@x''\<rparr>,
              \<lparr>member_type = SERVICE_ACCOUNT, email_id = ''a1''\<rparr>]
   \<and> google_project_has_valid_membership sample_cloud ''p1'' = Inr True
   \<and> get_project_membership sample_cloud ''p2''
       = Inr [\<lparr>member_type = USER, email_id = ''u@x''\<rparr>,
              \<lparr>member_type = GROUP, email_id = ''g@x''\<rparr>]
   \<and> google_project_has_valid_membership sample_cloud ''p2'' = Inr False"
proof -
  have enter: "manager_enter sample_cloud (Some p) = Inr ()" for p
    by (simp add: sample_cloud_def)
  have members1: "get_project_membership sample_cloud ''p1''
       = Inr [\<lparr>member_type = USER, email_id = ''u@x''\<rparr>,
              \<lparr>member_type = SERVICE_ACCOUNT, email_id = ''a1''\<rparr>]"
    by (simp add: sample_cloud_def)
  have members2: "get_project_membership sample_cloud ''p2''
       = Inr [\<lparr>member_type = USER, email_id = ''u@x''\<rparr>,
              \<lparr>member_type = GROUP, email_id = ''g@x''\<rparr>]"
    by (simp add: sample_cloud_def)
  from google_project_has_valid_membership_iff [OF enter members1]
       google_project_has_valid_membership_iff [OF enter members2] enter members1 members2
  show ?thesis by simp
qed

text \<open>
  C10: when the enumeration succeeds and the project has no member,
  \<^verbatim>\<open>google_project_has_valid_membership\<close> returns true.
\<close>

theorem google_project_has_valid_membership_no_members:
  assumes "manager_enter c (Some project) = Inr ()"
    and "get_project_membership c project = Inr []"
  shows "google_project_has_valid_membership c project = Inr True"
  using assms
  by (simp add: google_project_has_valid_membership_def try_except_Exception_def
      with_GoogleCloudManager_def)

theorem google_project_has_valid_membership_no_members_witness:
  "manager_enter sample_cloud (Some ''p0'') = Inr ()
   \<and> get_project_membership sample_cloud ''p0'' = Inr []
   \<and> google_project_has_valid_membership sample_cloud ''p0'' = Inr True"
proof -
  have enter: "manager_enter sample_cloud (Some ''p0'') = Inr ()"
    by (simp add: sample_cloud_def)
  have members: "get_project_membership sample_cloud ''p0'' = Inr []"
    by (simp add: sample_cloud_def)
  from google_project_has_valid_membership_no_members [OF enter members] enter members
  show ?thesis by simp
qed

text \<open>
  C6: when the manager is entered and the provider reports the type of the account,
  \<^verbatim>\<open>is_valid_service_account_type\<close> returns true if and only if that type is the
  compute engine default type or the user managed type.
\<close>

theorem is_valid_service_account_type_iff:
  assumes "manager_enter c (Some project) = Inr ()"
    and "get_service_account_type c project account_id = Inr t"
  shows "is_valid_service_account_type c project account_id
           = Inr (t = COMPUTE_ENGINE_DEFAULT_SERVICE_ACCOUNT \<or> t = USER_MANAGED_SERVICE_ACCOUNT)"
  using assms
  by (simp add: is_valid_service_account_type_def try_except_Exception_def
      with_GoogleCloudManager_def ALLOWED_SERVICE_ACCOUNT_TYPES_def)

theorem is_valid_service_account_type_iff_witness:
  "manager_enter sample_cloud (Some ''p1'') = Inr ()
   \<and> get_service_account_type sample_cloud ''p1'' ''a1'' = Inr USER_MANAGED_SERVICE_ACCOUNT
   \<and> is_valid_service_account_type sample_cloud ''p1'' ''a1'' = Inr True
   \<and> get_service_account_type sample_cloud ''p1'' ''a2''
       = Inr (OtherServiceAccountType ''google-api'')
   \<and> is_valid_service_account_type sample_cloud ''p1'' ''a2'' = Inr False"
proof -
  have enter: "manager_enter sample_cloud (Some ''p1'') = Inr ()"
    by (simp add: sample_cloud_def)
  have t1: "get_service_account_type sample_cloud ''p1'' ''a1'' = Inr USER_MANAGED_SERVICE_ACCOUNT"
    by (simp add: sample_cloud_def)
  have t2: "get_service_account_type sample_cloud ''p1'' ''a2''
              = Inr (OtherServiceAccountType ''google-api'')"
    by (simp add: sample_cloud_def)
  from is_valid_service_account_type_iff [OF enter t1]
       is_valid_service_account_type_iff [OF enter t2] enter t1 t2
  show ?thesis by simp
qed

subsection \<open>External access of a service account\<close>





text \<open>
  C4: when the policy fetch returns status 200 and the policy is read from the reply (a
  body without bindings has no roles), \<^verbatim>\<open>service_account_has_external_access\<close>
  returns true as soon as the set of roles is not empty, without listing the keys; and
  whenever the keys of the account are listed, it returns true if and only if the set of
  roles is not empty or the account has a key.
\<close>

theorem service_account_has_external_access_roles_or_keys:
  assumes "manager_enter c None = Inr ()"
    and "get_service_account_policy c service_account = Inr response"
    and "status_code response = 200"
    and "spec_policy_roles c response = Inr rs"
  shows "(rs \<noteq> {} \<longrightarrow> service_account_has_external_access c service_account = Inr True)
         \<and> (\<forall>keys. get_service_account_keys_info c service_account = Inr keys \<longrightarrow>
               service_account_has_external_access c service_account
                 = Inr (rs \<noteq> {} \<or> keys \<noteq> []))"
proof -
  from assms(4) obtain body where body: "json response = Inr body"
    by (auto simp: spec_policy_roles_def split: sum.splits)
  show ?thesis
  proof (cases "dict_contains body ''bindings''")
    case True
    with assms(4) body obtain policy where
      parsed: "GooglePolicy_from_json c body = Inr policy" and rs: "rs = roles policy"
      by (auto simp: spec_policy_roles_def split: sum.splits)
    from assms(1-3) body True parsed rs show ?thesis
      by (simp add: service_account_has_external_access_def with_GoogleCloudManager_def
          external_access_by_keys_def)
  next
    case False
    with assms(4) body have "rs = {}"
      by (simp add: spec_policy_roles_def)
    with assms(1-3) body False show ?thesis
      by (simp add: service_account_has_external_access_def with_GoogleCloudManager_def
          external_access_by_keys_def)
  qed
qed

theorem service_account_has_external_access_roles_or_keys_witness:
  "spec_policy_roles sample_cloud \<lparr>status_code = 200, json = Inr owner_bindings\<rparr>
     = Inr {''owner''}
   \<and> isl (get_service_account_keys_info sample_cloud ''a1'')
   \<and> service_account_has_external_access sample_cloud ''a1'' = Inr True
   \<and> spec_policy_roles sample_cloud \<lparr>status_code = 200, json = Inr [(''etag'', JStr ''e'')]\<rparr>
       = Inr {}
   \<and> get_service_account_keys_info sample_cloud ''a2'' = Inr [[(''name'', JStr ''k1'')]]
   \<and> service_account_has_external_access sample_cloud ''a2'' = Inr True
   \<and> spec_policy_roles sample_cloud \<lparr>status_code = 200, json = Inr [(''bindings'', JArr [])]\<rparr>
       = Inr {}
   \<and> get_service_account_keys_info sample_cloud ''a3'' = Inr []
   \<and> service_account_has_external_access sample_cloud ''a3'' = Inr False"
proof -
  have enter: "manager_enter sample_cloud None = Inr ()"
    by (simp add: sample_cloud_def)
  have s: "status_code \<lparr>status_code = 200, json = b\<rparr> = 200" for b :: "pyexn + pydict"
    by simp
  have p1: "get_service_account_policy sample_cloud ''a1''
              = Inr \<lparr>status_code = 200, json = Inr owner_bindings\<rparr>"
    by (simp add: sample_cloud_def)
  have r1: "spec_policy_roles sample_cloud \<lparr>status_code = 200, json = Inr owner_bindings\<rparr>
              = Inr {''owner''}"
    by (simp add: spec_policy_roles_def dict_contains_def sample_cloud_def owner_bindings_def)
  have k1: "isl (get_service_account_keys_info sample_cloud ''a1'')"
    by (simp add: sample_cloud_def)
  have p2: "get_service_account_policy sample_cloud ''a2''
              = Inr \<lparr>status_code = 200, json = Inr [(''etag'', JStr ''e'')]\<rparr>"
    by (simp add: sample_cloud_def)
  have r2: "spec_policy_roles sample_cloud
              \<lparr>status_code = 200, json = Inr [(''etag'', JStr ''e'')]\<rparr> = Inr {}"
    by (simp add: spec_policy_roles_def dict_contains_def)
  have k2: "get_service_account_keys_info sample_cloud ''a2'' = Inr [[(''name'', JStr ''k1'')]]"
    by (simp add: sample_cloud_def)
  have p3: "get_service_account_policy sample_cloud ''a3''
              = Inr \<lparr>status_code = 200, json = Inr [(''bindings'', JArr [])]\<rparr>"
    by (simp add: sample_cloud_def)
  have r3: "spec_policy_roles sample_cloud
              \<lparr>status_code = 200, json = Inr [(''bindings'', JArr [])]\<rparr> = Inr {}"
    by (simp add: spec_policy_roles_def dict_contains_def sample_cloud_def owner_bindings_def)
  have k3: "get_service_account_keys_info sample_cloud ''a3'' = Inr []"
    by (simp add: sample_cloud_def)
  from service_account_has_external_access_roles_or_keys [OF enter p1 s r1]
       service_account_has_external_access_roles_or_keys [OF enter p2 s r2]
       service_account_has_external_access_roles_or_keys [OF enter p3 s r3]
       r1 k1 r2 k2 r3 k3
  show ?thesis by simp
qed

subsection \<open>Fetching the service accounts of a project\<close>

text \<open>\<^verbatim>\<open>split\<close> never returns the empty list, so the last piece exists.\<close>

lemma str_split_nonempty: "str_split sep s \<noteq> []"
  by (induction s) (auto split: list.splits)






end
